theory Spec2Isabelle
  imports Complex_Main "HOL-Library.AList"
begin

section \<open>Values\<close>

text \<open>
  The data files and the request bodies are JSON. A JSON object is kept as the list of
  its properties in definition order, read with \<open>map_of\<close> (the JavaScript \<open>o.k\<close>,
  where \<open>None\<close> is \<open>undefined\<close>). JavaScript lists integer-like property names
  before the others; the statements below read objects through \<open>map_of\<close> and do not
  depend on that order. A request body that is an array acts as the object of its
  indices. A number is kept by its exact value: the model does no binary64 rounding, so
  it agrees with the program wherever the program's arithmetic is exact. Strings are
  lists of code units below 256. Output to the console is not modelled.
\<close>

datatype json = JNull | JBool bool | JNum rat | JStr string
  | JArr "json list" | JObj "(string \<times> json) list"

type_synonym object = "(string \<times> json) list"

type_synonym collection = "object list"

text \<open>The result of a numeric JavaScript expression: a finite value, an infinity or NaN.\<close>

datatype jsnum = NaN | NegInf | Fin rat | PosInf


text \<open>JavaScript truthiness of a property read.\<close>

fun truthy :: "json option \<Rightarrow> bool" where
  "truthy None = False"
| "truthy (Some JNull) = False"
| "truthy (Some (JBool b)) = b"
| "truthy (Some (JNum r)) = (r \<noteq> 0)"
| "truthy (Some (JStr s)) = (s \<noteq> [])"
| "truthy (Some (JArr xs)) = True"
| "truthy (Some (JObj kvs)) = True"

text \<open>
  The object spread \<open>{...acc, ...src}\<close>: every property of \<open>src\<close>, in order, is set on
  the object built so far. Setting a property that exists keeps its position, a new one
  is appended (\<open>AList.update\<close>).
\<close>

definition spread :: "object \<Rightarrow> object \<Rightarrow> object" where
  "spread acc src = fold (\<lambda>(k, v). AList.update k v) src acc"

text \<open>Property names of an object are pairwise distinct.\<close>

definition wf_object :: "object \<Rightarrow> bool" where
  "wf_object obj = distinct (map fst obj)"

section \<open>Number parsing\<close>

definition isWhiteSpace :: "char \<Rightarrow> bool" where
  "isWhiteSpace c = (c \<in> set [CHR 0x09, CHR 0x0A, CHR 0x0B, CHR 0x0C, CHR 0x0D, CHR 0x20, CHR 0xA0])"

definition decDigit :: "char \<Rightarrow> nat option" where
  "decDigit = map_of
     [(CHR ''0'', 0), (CHR ''1'', 1), (CHR ''2'', 2), (CHR ''3'', 3), (CHR ''4'', 4),
      (CHR ''5'', 5), (CHR ''6'', 6), (CHR ''7'', 7), (CHR ''8'', 8), (CHR ''9'', 9)]"

definition hexDigit :: "char \<Rightarrow> nat option" where
  "hexDigit c = (case decDigit c of Some d \<Rightarrow> Some d | None \<Rightarrow> map_of
     [(CHR ''a'', 10), (CHR ''b'', 11), (CHR ''c'', 12), (CHR ''d'', 13), (CHR ''e'', 14),
      (CHR ''f'', 15), (CHR ''A'', 10), (CHR ''B'', 11), (CHR ''C'', 12), (CHR ''D'', 13),
      (CHR ''E'', 14), (CHR ''F'', 15)] c)"

definition octDigit :: "char \<Rightarrow> nat option" where
  "octDigit c = (case decDigit c of Some d \<Rightarrow> (if d < 8 then Some d else None) | None \<Rightarrow> None)"

definition binDigit :: "char \<Rightarrow> nat option" where
  "binDigit c = (case decDigit c of Some d \<Rightarrow> (if d < 2 then Some d else None) | None \<Rightarrow> None)"

definition isDigit :: "(char \<Rightarrow> nat option) \<Rightarrow> char \<Rightarrow> bool" where
  "isDigit digit c = (digit c \<noteq> None)"

definition digitVal :: "(char \<Rightarrow> nat option) \<Rightarrow> char \<Rightarrow> nat" where
  "digitVal digit c = (case digit c of Some d \<Rightarrow> d | None \<Rightarrow> 0)"

text \<open>The value of a digit string in a radix, most significant digit first.\<close>

definition digitsValue :: "nat \<Rightarrow> (char \<Rightarrow> nat option) \<Rightarrow> string \<Rightarrow> nat" where
  "digitsValue radix digit ds = foldl (\<lambda>a c. a * radix + digitVal digit c) 0 ds"

text \<open>
  \<open>parseInt(s)\<close> with no radix: leading white space and one sign are dropped, a
  \<open>0x\<close> or \<open>0X\<close> prefix selects radix 16, and the longest run of digits of the
  radix is the value; with no digit the result is NaN.
\<close>

definition parseInt :: "string \<Rightarrow> jsnum" where
  "parseInt inputString =
     (let S = dropWhile isWhiteSpace inputString;
          neg = (S \<noteq> [] \<and> hd S = CHR ''-'');
          S1 = (if S \<noteq> [] \<and> (hd S = CHR ''+'' \<or> hd S = CHR ''-'') then tl S else S);
          hex = (take 2 S1 = ''0x'' \<or> take 2 S1 = ''0X'');
          S2 = (if hex then drop 2 S1 else S1);
          digit = (if hex then hexDigit else decDigit);
          Z = takeWhile (isDigit digit) S2;
          mathInt = int (digitsValue (if hex then 16 else 10) digit Z)
      in if Z = [] then NaN
         else Fin (of_int (if neg then - mathInt else mathInt)))"

text \<open>
  The exponent part of a decimal literal: \<open>e\<close> or \<open>E\<close>, an optional sign and at
  least one digit. Returns the exponent and what follows it; with no exponent part
  nothing is consumed.
\<close>

definition scanExponent :: "string \<Rightarrow> int \<times> string" where
  "scanExponent r =
     (if r \<noteq> [] \<and> (hd r = CHR ''e'' \<or> hd r = CHR ''E'') then
        (let r1 = tl r;
             eneg = (r1 \<noteq> [] \<and> hd r1 = CHR ''-'');
             r2 = (if r1 \<noteq> [] \<and> (hd r1 = CHR ''+'' \<or> hd r1 = CHR ''-'') then tl r1 else r1);
             ed = takeWhile (isDigit decDigit) r2;
             ev = int (digitsValue 10 decDigit ed)
         in if ed = [] then (0, r)
            else (if eneg then - ev else ev, dropWhile (isDigit decDigit) r2))
      else (0, r))"

text \<open>
  The longest prefix that is a \<open>StrDecimalLiteral\<close> (sign, then \<open>Infinity\<close> or
  digits with an optional fraction and exponent): its value and the rest of the string.
\<close>

definition scanDecimal :: "string \<Rightarrow> (jsnum \<times> string) option" where
  "scanDecimal S =
     (let neg = (S \<noteq> [] \<and> hd S = CHR ''-'');
          S1 = (if S \<noteq> [] \<and> (hd S = CHR ''+'' \<or> hd S = CHR ''-'') then tl S else S)
      in if take 8 S1 = ''Infinity'' then Some (if neg then NegInf else PosInf, drop 8 S1)
         else
           (let ip = takeWhile (isDigit decDigit) S1;
                r1 = dropWhile (isDigit decDigit) S1;
                hasDot = (r1 \<noteq> [] \<and> hd r1 = CHR ''.'');
                fp = (if hasDot then takeWhile (isDigit decDigit) (tl r1) else []);
                r2 = (if hasDot \<and> (ip \<noteq> [] \<or> fp \<noteq> [])
                      then dropWhile (isDigit decDigit) (tl r1) else r1)
            in if ip = [] \<and> fp = [] then None
               else
                 (let (e, r3) = scanExponent r2;
                      mant = (of_nat (digitsValue 10 decDigit (ip @ fp)) :: rat) / 10 ^ length fp;
                      v = (if 0 \<le> e then mant * 10 ^ nat e else mant / 10 ^ nat (- e))
                  in Some (Fin (if neg then - v else v), r3))))"

definition parseFloat :: "string \<Rightarrow> jsnum" where
  "parseFloat inputString =
     (case scanDecimal (dropWhile isWhiteSpace inputString) of
        None \<Rightarrow> NaN
      | Some (v, rest) \<Rightarrow> v)"

definition trim :: "string \<Rightarrow> string" where
  "trim s = rev (dropWhile isWhiteSpace (rev (dropWhile isWhiteSpace s)))"

definition prefixedInteger :: "nat \<Rightarrow> (char \<Rightarrow> nat option) \<Rightarrow> string \<Rightarrow> jsnum" where
  "prefixedInteger radix digit ds =
     (if ds \<noteq> [] \<and> list_all (isDigit digit) ds
      then Fin (of_nat (digitsValue radix digit ds)) else NaN)"

text \<open>
  The conversion of a string to a number (\<open>Number(s)\<close>): the whole trimmed string
  must be a numeric literal; the empty string is 0.
\<close>

definition stringToNumber :: "string \<Rightarrow> jsnum" where
  "stringToNumber s =
     (let t = trim s in
      if t = [] then Fin 0
      else if take 2 t = ''0x'' \<or> take 2 t = ''0X'' then prefixedInteger 16 hexDigit (drop 2 t)
      else if take 2 t = ''0o'' \<or> take 2 t = ''0O'' then prefixedInteger 8 octDigit (drop 2 t)
      else if take 2 t = ''0b'' \<or> take 2 t = ''0B'' then prefixedInteger 2 binDigit (drop 2 t)
      else (case scanDecimal t of
              Some (v, []) \<Rightarrow> v
            | _ \<Rightarrow> NaN))"

text \<open>
  \<open>ToNumber\<close> of a JSON value. An array converts through its string form, the join
  of its elements by commas: no element gives the empty string, one element gives that
  element's string, and two or more give a string with a comma, which is no number.
  An object's string form is \<open>[object Object]\<close>.
\<close>

fun toNumber :: "json \<Rightarrow> jsnum" where
  "toNumber JNull = Fin 0"
| "toNumber (JBool b) = Fin (if b then 1 else 0)"
| "toNumber (JNum r) = Fin r"
| "toNumber (JStr s) = stringToNumber s"
| "toNumber (JObj kvs) = NaN"
| "toNumber (JArr []) = Fin 0"
| "toNumber (JArr [JNull]) = Fin 0"
| "toNumber (JArr [JBool b]) = NaN"
| "toNumber (JArr [JNum r]) = Fin r"
| "toNumber (JArr [JStr s]) = stringToNumber s"
| "toNumber (JArr [JObj kvs]) = NaN"
| "toNumber (JArr [JArr ys]) = toNumber (JArr ys)"
| "toNumber (JArr (x # y # zs)) = NaN"

text \<open>\<open>ToNumber\<close> of a property read: \<open>undefined\<close> is NaN.\<close>

definition toNumberProp :: "json option \<Rightarrow> jsnum" where
  "toNumberProp v = (case v of None \<Rightarrow> NaN | Some j \<Rightarrow> toNumber j)"

text \<open>The comparison \<open>a <= b\<close> of two numbers: false when either is NaN.\<close>

fun numLe :: "jsnum \<Rightarrow> jsnum \<Rightarrow> bool" where
  "numLe NaN b = False"
| "numLe a NaN = False"
| "numLe NegInf b = True"
| "numLe a PosInf = True"
| "numLe (Fin x) (Fin y) = (x \<le> y)"
| "numLe PosInf b = False"
| "numLe a NegInf = False"




section \<open>Strict equality against request values\<close>

text \<open>\<open>u.id === req.params.id\<close>: the property is a string with the same content.\<close>

definition strictEqStr :: "json option \<Rightarrow> string \<Rightarrow> bool" where
  "strictEqStr v s = (v = Some (JStr s))"

text \<open>\<open>p.id === id\<close> for a number \<open>id\<close>: the property is that number; NaN equals nothing.\<close>

definition strictEqNum :: "json option \<Rightarrow> jsnum \<Rightarrow> bool" where
  "strictEqNum v n = (case n of Fin r \<Rightarrow> v = Some (JNum r) | _ \<Rightarrow> False)"

text \<open>
  A query parameter as the query-string parser delivers it: a string, or an array or an
  object when the parameter is repeated or written with brackets.
\<close>

datatype qval = QStr string | QArr "qval list" | QObj "(string \<times> qval) list"

text \<open>Truthiness of a query parameter that is present.\<close>

fun qTruthy :: "qval \<Rightarrow> bool" where
  "qTruthy (QStr s) = (s \<noteq> [])"
| "qTruthy (QArr xs) = True"
| "qTruthy (QObj kvs) = True"

fun joinComma :: "string list \<Rightarrow> string" where
  "joinComma [] = []"
| "joinComma [s] = s"
| "joinComma (s # t # ss) = s @ '','' @ joinComma (t # ss)"

fun qToString :: "qval \<Rightarrow> string" where
  "qToString (QStr s) = s"
| "qToString (QArr xs) = joinComma (map qToString xs)"
| "qToString (QObj kvs) = ''[object Object]''"

text \<open>
  \<open>p.category === req.query.category\<close>: only a string parameter can equal a
  property, an array or object parameter is a different object from any value.
\<close>

fun strictEqQuery :: "json option \<Rightarrow> qval \<Rightarrow> bool" where
  "strictEqQuery v (QStr s) = (v = Some (JStr s))"
| "strictEqQuery v (QArr xs) = False"
| "strictEqQuery v (QObj kvs) = False"

section \<open>The collection store (models/dataLoader.js)\<close>

text \<open>
  The data directory: the parsed content of each readable file, and which files can be
  written. A file that is missing or holds no JSON has no content; a file with content
  holds an array of objects, as the service writes it. What \<open>saveJsonData\<close> writes
  is read back unchanged.
\<close>

record filesystem =
  contents :: "string \<rightharpoonup> collection"
  writable :: "string \<Rightarrow> bool"

record failure =
  message :: string
  statusCode :: "nat option"

definition loadJsonData :: "filesystem \<Rightarrow> string \<Rightarrow> failure + collection" where
  "loadJsonData fs filename =
     (case contents fs filename of
        None \<Rightarrow> Inl \<lparr>message = ''Could not load data from '' @ filename, statusCode = None\<rparr>
      | Some d \<Rightarrow> Inr d)"

definition saveJsonData :: "filesystem \<Rightarrow> string \<Rightarrow> collection \<Rightarrow> failure + filesystem" where
  "saveJsonData fs filename d =
     (if writable fs filename
      then Inr (fs\<lparr>contents := (contents fs)(filename \<mapsto> d)\<rparr>)
      else Inl \<lparr>message = ''Could not save data to '' @ filename, statusCode = None\<rparr>)"

section \<open>Controllers\<close>

text \<open>
  A handler ends by sending a JSON response with a status, or by passing a failure to
  \<open>next\<close>. It returns that outcome and the data directory it leaves behind.
\<close>

datatype outcome = Responded nat json | Next failure

definition notFound :: "string \<Rightarrow> failure" where
  "notFound msg = \<lparr>message = msg, statusCode = Some 404\<rparr>"

text \<open>\<open>Array.prototype.findIndex\<close>; \<open>None\<close> stands for the result \<open>-1\<close>.\<close>

fun findIndex :: "('a \<Rightarrow> bool) \<Rightarrow> 'a list \<Rightarrow> nat option" where
  "findIndex P [] = None"
| "findIndex P (x # xs) =
     (if P x then Some 0 else (case findIndex P xs of None \<Rightarrow> None | Some i \<Rightarrow> Some (Suc i)))"

text \<open>\<open>xs.splice(i, 1)\<close>: what is left of the array.\<close>

definition splice1 :: "nat \<Rightarrow> 'a list \<Rightarrow> 'a list" where
  "splice1 i xs = take i xs @ drop (Suc i) xs"

text \<open>The literal \<open>{...existing, ...body, id: existing.id}\<close>, as it is serialised:
  a property whose value is \<open>undefined\<close> is left out.\<close>

definition mergeKeepId :: "object \<Rightarrow> object \<Rightarrow> object" where
  "mergeKeepId existing body =
     (let merged = spread (spread [] existing) body in
      case map_of existing ''id'' of
        Some v \<Rightarrow> AList.update ''id'' v merged
      | None \<Rightarrow> AList.delete ''id'' merged)"

definition successOne :: "string \<Rightarrow> object \<Rightarrow> json" where
  "successOne key obj =
     JObj [(''status'', JStr ''success''), (''data'', JObj [(key, JObj obj)])]"

definition successMany :: "string \<Rightarrow> collection \<Rightarrow> json" where
  "successMany key objs =
     JObj [(''status'', JStr ''success''),
           (''results'', JNum (of_nat (length objs))),
           (''data'', JObj [(key, JArr (map JObj objs))])]"

subsection \<open>controllers/userController.js\<close>

text \<open>
  \<open>generateRandomId\<close>: its two arguments are what the environment supplies, the
  string \<open>Math.random().toString(16)\<close> and the clock \<open>Date.now()\<close>.
\<close>

definition hexChars :: string where
  "hexChars = ''0123456789abcdef''"

fun toHex :: "nat \<Rightarrow> string" where
  "toHex n = (if n < 16 then [hexChars ! n] else toHex (n div 16) @ [hexChars ! (n mod 16)])"

declare toHex.simps [simp del]

definition generateRandomId :: "string \<Rightarrow> nat \<Rightarrow> string" where
  "generateRandomId rnd now = drop 2 rnd @ toHex now"

definition getAllUsers :: "filesystem \<Rightarrow> outcome \<times> filesystem" where
  "getAllUsers fs =
     (case loadJsonData fs ''users.json'' of
        Inl e \<Rightarrow> (Next e, fs)
      | Inr users \<Rightarrow> (Responded 200 (successMany ''users'' users), fs))"

definition getUserById :: "filesystem \<Rightarrow> string \<Rightarrow> outcome \<times> filesystem" where
  "getUserById fs ident =
     (case loadJsonData fs ''users.json'' of
        Inl e \<Rightarrow> (Next e, fs)
      | Inr users \<Rightarrow>
          (case find (\<lambda>u. strictEqStr (map_of u ''id'') ident) users of
             None \<Rightarrow> (Next (notFound ''User not found''), fs)
           | Some user \<Rightarrow> (Responded 200 (successOne ''user'' user), fs)))"

text \<open>The literal \<open>{id: req.body.id || generateRandomId(), ...req.body}\<close>.\<close>

definition newUser :: "string \<Rightarrow> nat \<Rightarrow> object \<Rightarrow> object" where
  "newUser rnd now body =
     spread [(''id'', (case map_of body ''id'' of
                         None \<Rightarrow> JStr (generateRandomId rnd now)
                       | Some v \<Rightarrow> (if truthy (Some v) then v
                                   else JStr (generateRandomId rnd now))))] body"

definition createUser :: "filesystem \<Rightarrow> string \<Rightarrow> nat \<Rightarrow> object \<Rightarrow> outcome \<times> filesystem" where
  "createUser fs rnd now body =
     (case loadJsonData fs ''users.json'' of
        Inl e \<Rightarrow> (Next e, fs)
      | Inr users \<Rightarrow>
          (let user = newUser rnd now body in
           case saveJsonData fs ''users.json'' (users @ [user]) of
             Inl e \<Rightarrow> (Next e, fs)
           | Inr fs' \<Rightarrow> (Responded 201 (successOne ''user'' user), fs')))"

definition updateUser :: "filesystem \<Rightarrow> string \<Rightarrow> object \<Rightarrow> outcome \<times> filesystem" where
  "updateUser fs ident body =
     (case loadJsonData fs ''users.json'' of
        Inl e \<Rightarrow> (Next e, fs)
      | Inr users \<Rightarrow>
          (case findIndex (\<lambda>u. strictEqStr (map_of u ''id'') ident) users of
             None \<Rightarrow> (Next (notFound ''User not found''), fs)
           | Some userIndex \<Rightarrow>
               (let users' = users[userIndex := mergeKeepId (users ! userIndex) body] in
                case saveJsonData fs ''users.json'' users' of
                  Inl e \<Rightarrow> (Next e, fs)
                | Inr fs' \<Rightarrow> (Responded 200 (successOne ''user'' (users' ! userIndex)), fs'))))"

definition deleteUser :: "filesystem \<Rightarrow> string \<Rightarrow> outcome \<times> filesystem" where
  "deleteUser fs ident =
     (case loadJsonData fs ''users.json'' of
        Inl e \<Rightarrow> (Next e, fs)
      | Inr users \<Rightarrow>
          (case findIndex (\<lambda>u. strictEqStr (map_of u ''id'') ident) users of
             None \<Rightarrow> (Next (notFound ''User not found''), fs)
           | Some userIndex \<Rightarrow>
               (let deletedUser = users ! userIndex in
                case saveJsonData fs ''users.json'' (splice1 userIndex users) of
                  Inl e \<Rightarrow> (Next e, fs)
                | Inr fs' \<Rightarrow> (Responded 200 (successOne ''user'' deletedUser), fs'))))"

subsection \<open>controllers/productController.js\<close>

text \<open>The query parameters the product list reads; \<open>None\<close> is a parameter not sent.\<close>

record query =
  category :: "qval option"
  minPrice :: "qval option"
  maxPrice :: "qval option"

text \<open>One \<open>if (param) { filtered = filtered.filter(keep) }\<close> step.\<close>

definition filterWhen :: "qval option \<Rightarrow> (qval \<Rightarrow> object \<Rightarrow> bool) \<Rightarrow> collection \<Rightarrow> collection" where
  "filterWhen param keep xs =
     (case param of
        None \<Rightarrow> xs
      | Some v \<Rightarrow> (if qTruthy v then filter (keep v) xs else xs))"

definition getAllProducts :: "filesystem \<Rightarrow> query \<Rightarrow> outcome \<times> filesystem" where
  "getAllProducts fs q =
     (case loadJsonData fs ''products.json'' of
        Inl e \<Rightarrow> (Next e, fs)
      | Inr products \<Rightarrow>
          (let f1 = filterWhen (category q)
                      (\<lambda>c p. strictEqQuery (map_of p ''category'') c) products;
               f2 = filterWhen (minPrice q)
                      (\<lambda>m p. numLe (parseFloat (qToString m)) (toNumberProp (map_of p ''price''))) f1;
               f3 = filterWhen (maxPrice q)
                      (\<lambda>m p. numLe (toNumberProp (map_of p ''price'')) (parseFloat (qToString m))) f2
           in (Responded 200 (successMany ''products'' f3), fs)))"

definition getProductById :: "filesystem \<Rightarrow> string \<Rightarrow> outcome \<times> filesystem" where
  "getProductById fs ident =
     (case loadJsonData fs ''products.json'' of
        Inl e \<Rightarrow> (Next e, fs)
      | Inr products \<Rightarrow>
          (case find (\<lambda>p. strictEqNum (map_of p ''id'') (parseInt ident)) products of
             None \<Rightarrow> (Next (notFound ''Product not found''), fs)
           | Some product \<Rightarrow> (Responded 200 (successOne ''product'' product), fs)))"




definition updateProduct :: "filesystem \<Rightarrow> string \<Rightarrow> object \<Rightarrow> outcome \<times> filesystem" where
  "updateProduct fs ident body =
     (case loadJsonData fs ''products.json'' of
        Inl e \<Rightarrow> (Next e, fs)
      | Inr products \<Rightarrow>
          (case findIndex (\<lambda>p. strictEqNum (map_of p ''id'') (parseInt ident)) products of
             None \<Rightarrow> (Next (notFound ''Product not found''), fs)
           | Some productIndex \<Rightarrow>
               (let products' =
                      products[productIndex := mergeKeepId (products ! productIndex) body] in
                case saveJsonData fs ''products.json'' products' of
                  Inl e \<Rightarrow> (Next e, fs)
                | Inr fs' \<Rightarrow>
                    (Responded 200 (successOne ''product'' (products' ! productIndex)), fs'))))"

definition deleteProduct :: "filesystem \<Rightarrow> string \<Rightarrow> outcome \<times> filesystem" where
  "deleteProduct fs ident =
     (case loadJsonData fs ''products.json'' of
        Inl e \<Rightarrow> (Next e, fs)
      | Inr products \<Rightarrow>
          (case findIndex (\<lambda>p. strictEqNum (map_of p ''id'') (parseInt ident)) products of
             None \<Rightarrow> (Next (notFound ''Product not found''), fs)
           | Some productIndex \<Rightarrow>
               (let deletedProduct = products ! productIndex in
                case saveJsonData fs ''products.json'' (splice1 productIndex products) of
                  Inl e \<Rightarrow> (Next e, fs)
                | Inr fs' \<Rightarrow> (Responded 200 (successOne ''product'' deletedProduct), fs'))))"

subsection \<open>middlewares/errorHandler.js\<close>

text \<open>
  The handler reads the environment variable \<open>NODE_ENV\<close> and the failure's
  \<open>stack\<close>, a string the runtime attaches to an error; both are arguments here.
  It answers with a status and a body. A \<open>stack\<close> property that is \<open>undefined\<close>
  is left out of the serialised body.
\<close>

definition errorHandler :: "string option \<Rightarrow> string option \<Rightarrow> failure \<Rightarrow> nat \<times> json" where
  "errorHandler NODE_ENV stack err =
     (let code = (case statusCode err of
                    None \<Rightarrow> 500
                  | Some n \<Rightarrow> (if n \<noteq> 0 then n else 500))
      in (code,
          JObj ([(''status'', JStr ''error''),
                 (''statusCode'', JNum (of_nat code)),
                 (''message'', JStr (if message err \<noteq> [] then message err
                                     else ''Internal server error''))]
                @ (if NODE_ENV = Some ''development''
                   then (case stack of None \<Rightarrow> [] | Some s \<Rightarrow> [(''stack'', JStr s)])
                   else []))))"

section \<open>Example data\<close>

text \<open>A data directory with one writable file.\<close>

definition oneFile :: "string \<Rightarrow> collection \<Rightarrow> filesystem" where
  "oneFile name d = \<lparr>contents = [name \<mapsto> d], writable = (\<lambda>f. True)\<rparr>"

text \<open>The three products of the controller's unit test.\<close>

definition mockProducts :: collection where
  "mockProducts =
     [[(''id'', JNum 1), (''name'', JStr ''Product 1''), (''price'', JNum (9999 / 100)),
       (''category'', JStr ''electronics''), (''stock'', JNum 10)],
      [(''id'', JNum 2), (''name'', JStr ''Product 2''), (''price'', JNum (19999 / 100)),
       (''category'', JStr ''electronics''), (''stock'', JNum 5)],
      [(''id'', JNum 3), (''name'', JStr ''Product 3''), (''price'', JNum (2999 / 100)),
       (''category'', JStr ''accessories''), (''stock'', JNum 20)]]"

definition mockUsers :: collection where
  "mockUsers =
     [[(''id'', JStr ''1''), (''name'', JStr ''User 1''), (''email'', JStr ''user1@example.com'')],
      [(''id'', JStr ''2''), (''name'', JStr ''User 2''), (''email'', JStr ''user2@example.com'')]]"

text \<open>A data directory holding both collections of the unit tests.\<close>

definition mockStore :: filesystem where
  "mockStore =
     \<lparr>contents = [''users.json'' \<mapsto> mockUsers, ''products.json'' \<mapsto> mockProducts],
      writable = (\<lambda>f. True)\<rparr>"

text \<open>Collections in which two records share an id.\<close>

definition dupUsers :: collection where
  "dupUsers =
     [[(''id'', JStr ''1''), (''name'', JStr ''First'')],
      [(''id'', JStr ''2''), (''name'', JStr ''Other'')],
      [(''id'', JStr ''1''), (''name'', JStr ''Second'')]]"

definition dupProducts :: collection where
  "dupProducts =
     [[(''id'', JNum 1), (''name'', JStr ''First'')],
      [(''id'', JNum 2), (''name'', JStr ''Other'')],
      [(''id'', JNum 1), (''name'', JStr ''Second'')]]"

section \<open>Objects and arrays\<close>

lemma map_of_fold_update:
  "map_of (fold (\<lambda>(k, v). AList.update k v) src acc) = map_of acc ++ map_of (rev src)"
proof (induction src arbitrary: acc)
  case Nil
  then show ?case by simp
next
  case (Cons kv src)
  obtain k v where kv: "kv = (k, v)" by (cases kv)
  have "map_of (fold (\<lambda>(k, v). AList.update k v) (kv # src) acc)
        = map_of (AList.update k v acc) ++ map_of (rev src)"
    using Cons.IH [of "AList.update k v acc"] by (simp add: kv)
  also have "\<dots> = map_of acc ++ (map_of [(k, v)] ++ map_of (rev src))"
    by (simp add: update_conv' map_add_assoc [symmetric] map_add_upd_left fun_eq_iff map_add_def split: option.splits)
  also have "\<dots> = map_of acc ++ map_of (rev (kv # src))"
    by (simp only: rev.simps kv map_of_append)
  finally show ?case .
qed

lemma map_of_rev_distinct:
  "distinct (map fst xs) \<Longrightarrow> map_of (rev xs) = map_of xs"
  by (subst map_of_inject_set) (simp_all add: rev_map [symmetric])

lemma map_of_spread:
  "wf_object src \<Longrightarrow> map_of (spread acc src) = map_of acc ++ map_of src"
  by (simp add: spread_def wf_object_def map_of_fold_update map_of_rev_distinct)

lemma findIndex_None: "(findIndex P xs = None) = (\<forall>x\<in>set xs. \<not> P x)"
  by (induction xs) (auto split: option.splits)

lemma findIndex_Some:
  "findIndex P xs = Some i \<Longrightarrow> i < length xs \<and> P (xs ! i) \<and> (\<forall>j<i. \<not> P (xs ! j))"
proof (induction xs arbitrary: i)
  case Nil
  then show ?case by simp
next
  case (Cons x xs)
  show ?case
  proof (cases "P x")
    case True
    with Cons.prems show ?thesis by simp
  next
    case False
    with Cons.prems obtain i' where i': "findIndex P xs = Some i'" "i = Suc i'"
      by (auto split: option.splits)
    from Cons.IH [OF i'(1)] False i'(2) show ?thesis
      by (auto simp: nth_Cons split: nat.splits)
  qed
qed

lemma map_of_mergeKeepId:
  assumes "wf_object existing" and "wf_object body" and "map_of existing ''id'' = Some v"
  shows "map_of (mergeKeepId existing body) = (map_of existing ++ map_of body)(''id'' \<mapsto> v)"
  using assms by (simp add: mergeKeepId_def Let_def update_conv' map_of_spread)



lemma findIndex_ex:
  "\<exists>x\<in>set xs. P x \<Longrightarrow> \<exists>i. findIndex P xs = Some i"
  using findIndex_None [of P xs] by (cases "findIndex P xs") auto



section \<open>Creating a user\<close>



section \<open>An id that is absent\<close>

lemma find_None_absent: "\<forall>x\<in>set xs. \<not> P x \<Longrightarrow> find P xs = None"
  by (simp add: find_None_iff)

lemma findIndex_None_absent: "\<forall>x\<in>set xs. \<not> P x \<Longrightarrow> findIndex P xs = None"
  by (simp add: findIndex_None)

lemma users_absent:
  assumes "contents fs ''users.json'' = Some users"
    and "\<forall>u\<in>set users. map_of u ''id'' \<noteq> Some (JStr uid)"
  shows "getUserById fs uid = (Next (notFound ''User not found''), fs)"
    and "updateUser fs uid body = (Next (notFound ''User not found''), fs)"
    and "deleteUser fs uid = (Next (notFound ''User not found''), fs)"
proof -
  have a: "\<forall>u\<in>set users. \<not> strictEqStr (map_of u ''id'') uid"
    using assms(2) by (simp add: strictEqStr_def)
  show "getUserById fs uid = (Next (notFound ''User not found''), fs)"
    using assms(1) find_None_absent [OF a] by (simp add: getUserById_def loadJsonData_def)
  show "updateUser fs uid body = (Next (notFound ''User not found''), fs)"
    using assms(1) findIndex_None_absent [OF a] by (simp add: updateUser_def loadJsonData_def)
  show "deleteUser fs uid = (Next (notFound ''User not found''), fs)"
    using assms(1) findIndex_None_absent [OF a] by (simp add: deleteUser_def loadJsonData_def)
qed

lemma strictEqNum_iff:
  "strictEqNum v n = (\<exists>r. n = Fin r \<and> v = Some (JNum r))"
  by (cases n) (simp_all add: strictEqNum_def)

lemma products_absent:
  assumes "contents fs ''products.json'' = Some products"
    and "\<forall>p\<in>set products. \<forall>n. parseInt pid = Fin n \<longrightarrow> map_of p ''id'' \<noteq> Some (JNum n)"
  shows "getProductById fs pid = (Next (notFound ''Product not found''), fs)"
    and "updateProduct fs pid body = (Next (notFound ''Product not found''), fs)"
    and "deleteProduct fs pid = (Next (notFound ''Product not found''), fs)"
proof -
  have a: "\<forall>p\<in>set products. \<not> strictEqNum (map_of p ''id'') (parseInt pid)"
    using assms(2) by (auto simp: strictEqNum_iff)
  show "getProductById fs pid = (Next (notFound ''Product not found''), fs)"
    using assms(1) find_None_absent [OF a] by (simp add: getProductById_def loadJsonData_def)
  show "updateProduct fs pid body = (Next (notFound ''Product not found''), fs)"
    using assms(1) findIndex_None_absent [OF a] by (simp add: updateProduct_def loadJsonData_def)
  show "deleteProduct fs pid = (Next (notFound ''Product not found''), fs)"
    using assms(1) findIndex_None_absent [OF a] by (simp add: deleteProduct_def loadJsonData_def)
qed




section \<open>An id that is present\<close>

lemma first_match:
  assumes "\<exists>x\<in>set xs. P x"
  shows "\<exists>i. findIndex P xs = Some i \<and> i < length xs \<and> P (xs ! i) \<and> (\<forall>j<i. \<not> P (xs ! j))"
proof -
  from findIndex_ex [OF assms] obtain i where "findIndex P xs = Some i" ..
  with findIndex_Some [of P xs i] show ?thesis by blast
qed

lemma updateUser_found:
  assumes "contents fs ''users.json'' = Some users"
    and "writable fs ''users.json''"
    and "findIndex (\<lambda>u. strictEqStr (map_of u ''id'') X) users = Some i"
  shows "updateUser fs X body =
     (Responded 200 (successOne ''user'' (mergeKeepId (users ! i) body)),
      fs\<lparr>contents := (contents fs)(''users.json'' \<mapsto> users[i := mergeKeepId (users ! i) body])\<rparr>)"
proof -
  from findIndex_Some [OF assms(3)] have "i < length users" by simp
  with assms show ?thesis
    by (simp add: updateUser_def loadJsonData_def saveJsonData_def Let_def)
qed

lemma updateProduct_found:
  assumes "contents fs ''products.json'' = Some products"
    and "writable fs ''products.json''"
    and "findIndex (\<lambda>p. strictEqNum (map_of p ''id'') (parseInt s)) products = Some i"
  shows "updateProduct fs s body =
     (Responded 200 (successOne ''product'' (mergeKeepId (products ! i) body)),
      fs\<lparr>contents := (contents fs)(''products.json'' \<mapsto> products[i := mergeKeepId (products ! i) body])\<rparr>)"
proof -
  from findIndex_Some [OF assms(3)] have "i < length products" by simp
  with assms show ?thesis
    by (simp add: updateProduct_def loadJsonData_def saveJsonData_def Let_def)
qed

lemma deleteUser_found:
  assumes "contents fs ''users.json'' = Some users"
    and "writable fs ''users.json''"
    and "findIndex (\<lambda>u. strictEqStr (map_of u ''id'') X) users = Some i"
  shows "deleteUser fs X =
     (Responded 200 (successOne ''user'' (users ! i)),
      fs\<lparr>contents := (contents fs)(''users.json'' \<mapsto> take i users @ drop (Suc i) users)\<rparr>)"
  using assms
  by (simp add: deleteUser_def loadJsonData_def saveJsonData_def Let_def splice1_def)

lemma deleteProduct_found:
  assumes "contents fs ''products.json'' = Some products"
    and "writable fs ''products.json''"
    and "findIndex (\<lambda>p. strictEqNum (map_of p ''id'') (parseInt s)) products = Some i"
  shows "deleteProduct fs s =
     (Responded 200 (successOne ''product'' (products ! i)),
      fs\<lparr>contents := (contents fs)(''products.json'' \<mapsto> take i products @ drop (Suc i) products)\<rparr>)"
  using assms
  by (simp add: deleteProduct_def loadJsonData_def saveJsonData_def Let_def splice1_def)

text \<open>
  C4. With the file readable and writable and property names distinct: when a record has
  id \<open>X\<close>, \<open>update\<close> answers 200 with a record \<open>r\<close> that is the matched record
  overlaid with the payload and then with \<open>id = X\<close>, whatever id the payload carries, and
  the persisted sequence is the old one with \<open>r\<close> at the matched position. For a product
  \<open>X\<close> is the number \<open>parseInt\<close> reads from the path.
\<close>

theorem update_keeps_id:
  "(contents fs ''users.json'' = Some users \<and> writable fs ''users.json''
      \<and> (\<forall>u\<in>set users. wf_object u) \<and> wf_object body
      \<and> (\<exists>u\<in>set users. map_of u ''id'' = Some (JStr X))
    \<longrightarrow> (\<exists>i r. i < length users \<and> map_of (users ! i) ''id'' = Some (JStr X)
          \<and> updateUser fs X body =
              (Responded 200 (successOne ''user'' r),
               fs\<lparr>contents := (contents fs)(''users.json'' \<mapsto> users[i := r])\<rparr>)
          \<and> map_of r = (map_of (users ! i) ++ map_of body)(''id'' \<mapsto> JStr X)))
   \<and> (contents fs ''products.json'' = Some products \<and> writable fs ''products.json''
      \<and> (\<forall>p\<in>set products. wf_object p) \<and> wf_object body
      \<and> parseInt s = Fin n
      \<and> (\<exists>p\<in>set products. map_of p ''id'' = Some (JNum n))
    \<longrightarrow> (\<exists>i r. i < length products \<and> map_of (products ! i) ''id'' = Some (JNum n)
          \<and> updateProduct fs s body =
              (Responded 200 (successOne ''product'' r),
               fs\<lparr>contents := (contents fs)(''products.json'' \<mapsto> products[i := r])\<rparr>)
          \<and> map_of r = (map_of (products ! i) ++ map_of body)(''id'' \<mapsto> JNum n)))"
proof (intro conjI impI)
  assume h: "contents fs ''users.json'' = Some users \<and> writable fs ''users.json''
      \<and> (\<forall>u\<in>set users. wf_object u) \<and> wf_object body
      \<and> (\<exists>u\<in>set users. map_of u ''id'' = Some (JStr X))"
  then have "\<exists>u\<in>set users. strictEqStr (map_of u ''id'') X"
    by (simp add: strictEqStr_def)
  from first_match [OF this] obtain i where
    i: "findIndex (\<lambda>u. strictEqStr (map_of u ''id'') X) users = Some i" "i < length users"
       "map_of (users ! i) ''id'' = Some (JStr X)"
    by (auto simp: strictEqStr_def)
  from h i(2) have wf: "wf_object (users ! i)" by simp
  let ?r = "mergeKeepId (users ! i) body"
  have "map_of ?r = (map_of (users ! i) ++ map_of body)(''id'' \<mapsto> JStr X)"
    using wf h i(3) by (simp add: map_of_mergeKeepId)
  moreover have "updateUser fs X body =
      (Responded 200 (successOne ''user'' ?r),
       fs\<lparr>contents := (contents fs)(''users.json'' \<mapsto> users[i := ?r])\<rparr>)"
    using h i(1) by (simp add: updateUser_found)
  ultimately show "\<exists>i r. i < length users \<and> map_of (users ! i) ''id'' = Some (JStr X)
          \<and> updateUser fs X body =
              (Responded 200 (successOne ''user'' r),
               fs\<lparr>contents := (contents fs)(''users.json'' \<mapsto> users[i := r])\<rparr>)
          \<and> map_of r = (map_of (users ! i) ++ map_of body)(''id'' \<mapsto> JStr X)"
    using i(2,3) by blast
next
  assume h: "contents fs ''products.json'' = Some products \<and> writable fs ''products.json''
      \<and> (\<forall>p\<in>set products. wf_object p) \<and> wf_object body
      \<and> parseInt s = Fin n
      \<and> (\<exists>p\<in>set products. map_of p ''id'' = Some (JNum n))"
  then have "\<exists>p\<in>set products. strictEqNum (map_of p ''id'') (parseInt s)"
    by (simp add: strictEqNum_def)
  from first_match [OF this] obtain i where
    i: "findIndex (\<lambda>p. strictEqNum (map_of p ''id'') (parseInt s)) products = Some i"
       "i < length products" "strictEqNum (map_of (products ! i) ''id'') (parseInt s)"
    by auto
  from i(3) h have idn: "map_of (products ! i) ''id'' = Some (JNum n)"
    by (simp add: strictEqNum_def)
  from h i(2) have wf: "wf_object (products ! i)" by simp
  let ?r = "mergeKeepId (products ! i) body"
  have "map_of ?r = (map_of (products ! i) ++ map_of body)(''id'' \<mapsto> JNum n)"
    using wf h idn by (simp add: map_of_mergeKeepId)
  moreover have "updateProduct fs s body =
      (Responded 200 (successOne ''product'' ?r),
       fs\<lparr>contents := (contents fs)(''products.json'' \<mapsto> products[i := ?r])\<rparr>)"
    using h i(1) by (simp add: updateProduct_found)
  ultimately show "\<exists>i r. i < length products \<and> map_of (products ! i) ''id'' = Some (JNum n)
          \<and> updateProduct fs s body =
              (Responded 200 (successOne ''product'' r),
               fs\<lparr>contents := (contents fs)(''products.json'' \<mapsto> products[i := r])\<rparr>)
          \<and> map_of r = (map_of (products ! i) ++ map_of body)(''id'' \<mapsto> JNum n)"
    using i(2) idn by blast
qed

lemma parseInt_1: "parseInt ''1'' = Fin 1"
  by (simp add: parseInt_def isWhiteSpace_def isDigit_def decDigit_def digitsValue_def digitVal_def)

theorem update_keeps_id_witness:
  "contents mockStore ''users.json'' = Some mockUsers
   \<and> writable mockStore ''users.json''
   \<and> list_all wf_object mockUsers
   \<and> wf_object [(''id'', JStr ''other''), (''name'', JStr ''Updated User'')]
   \<and> list_ex (\<lambda>u. map_of u ''id'' = Some (JStr ''1'')) mockUsers
   \<and> contents mockStore ''products.json'' = Some mockProducts
   \<and> writable mockStore ''products.json''
   \<and> list_all wf_object mockProducts
   \<and> parseInt ''1'' = Fin 1
   \<and> list_ex (\<lambda>p. map_of p ''id'' = Some (JNum 1)) mockProducts
   \<and> fst (updateUser mockStore ''1'' [(''id'', JStr ''other''), (''name'', JStr ''Updated User'')])
       = Responded 200 (successOne ''user''
           [(''id'', JStr ''1''), (''name'', JStr ''Updated User''),
            (''email'', JStr ''user1@example.com'')])
   \<and> contents (snd (updateUser mockStore ''1''
          [(''id'', JStr ''other''), (''name'', JStr ''Updated User'')])) ''users.json''
       = Some [[(''id'', JStr ''1''), (''name'', JStr ''Updated User''),
                (''email'', JStr ''user1@example.com'')], mockUsers ! 1]
   \<and> fst (updateProduct mockStore ''1'' [(''id'', JStr ''other''), (''name'', JStr ''Updated User'')])
       = Responded 200 (successOne ''product''
           [(''id'', JNum 1), (''name'', JStr ''Updated User''), (''price'', JNum (9999 / 100)),
            (''category'', JStr ''electronics''), (''stock'', JNum 10)])"
proof -
  let ?body = "[(''id'', JStr ''other''), (''name'', JStr ''Updated User'')]"
  have h1: "contents mockStore ''users.json'' = Some mockUsers"
    and h2: "writable mockStore ''users.json''"
    and h6: "contents mockStore ''products.json'' = Some mockProducts"
    and h7: "writable mockStore ''products.json''"
    by (simp_all add: mockStore_def)
  have h3: "\<forall>u\<in>set mockUsers. wf_object u"
    and h5: "\<exists>u\<in>set mockUsers. map_of u ''id'' = Some (JStr ''1'')"
    by (simp_all add: mockUsers_def wf_object_def)
  have h4: "wf_object ?body"
    by (simp add: wf_object_def)
  have h8: "\<forall>p\<in>set mockProducts. wf_object p"
    and h10: "\<exists>p\<in>set mockProducts. map_of p ''id'' = Some (JNum 1)"
    by (simp_all add: mockProducts_def wf_object_def)
  note inst = update_keeps_id [of mockStore mockUsers ?body "''1''" mockProducts "''1''" 1]
  from inst h1 h2 h3 h4 h5 have
    "\<exists>i r. i < length mockUsers \<and> map_of (mockUsers ! i) ''id'' = Some (JStr ''1'')
       \<and> updateUser mockStore ''1'' ?body =
           (Responded 200 (successOne ''user'' r),
            mockStore\<lparr>contents := (contents mockStore)(''users.json'' \<mapsto> mockUsers[i := r])\<rparr>)
       \<and> map_of r = (map_of (mockUsers ! i) ++ map_of ?body)(''id'' \<mapsto> JStr ''1'')"
    by blast
  have e1: "updateUser mockStore ''1'' ?body =
     (Responded 200 (successOne ''user''
           [(''id'', JStr ''1''), (''name'', JStr ''Updated User''),
            (''email'', JStr ''user1@example.com'')]),
      mockStore\<lparr>contents := (contents mockStore)(''users.json'' \<mapsto>
         [[(''id'', JStr ''1''), (''name'', JStr ''Updated User''),
                (''email'', JStr ''user1@example.com'')], mockUsers ! 1])\<rparr>)"
    by (simp add: updateUser_def loadJsonData_def saveJsonData_def mockStore_def mockUsers_def
        strictEqStr_def mergeKeepId_def spread_def Let_def)
  have e2: "fst (updateProduct mockStore ''1'' ?body)
       = Responded 200 (successOne ''product''
           [(''id'', JNum 1), (''name'', JStr ''Updated User''), (''price'', JNum (9999 / 100)),
            (''category'', JStr ''electronics''), (''stock'', JNum 10)])"
    by (simp add: updateProduct_def loadJsonData_def saveJsonData_def mockStore_def
        mockProducts_def strictEqNum_def mergeKeepId_def spread_def Let_def parseInt_1)
  from inst show ?thesis
    using h1 h2 h3 h4 h5 h6 h7 h8 h10 e1 e2
    by (simp add: parseInt_1 list_all_iff list_ex_iff)
qed

section \<open>Deleting a record\<close>

lemma only_match_removed:
  assumes "i < length xs" and "P (xs ! i)" and "length (filter P xs) = 1"
  shows "\<forall>x\<in>set (take i xs @ drop (Suc i) xs). \<not> P x"
proof -
  have "xs = take i xs @ xs ! i # drop (Suc i) xs"
    using assms(1) by (simp add: id_take_nth_drop [symmetric])
  then have "length (filter P xs)
      = length (filter P (take i xs)) + 1 + length (filter P (drop (Suc i) xs))"
    using assms(2) by (metis (no_types, lifting) One_nat_def add.assoc filter.simps(2)
        filter_append length_Cons length_append plus_1_eq_Suc)
  with assms(3) have "filter P (take i xs @ drop (Suc i) xs) = []"
    by simp
  then show ?thesis
    by (auto simp: filter_empty_conv)
qed

text \<open>
  C5, amended. With the file readable and writable: when a record has id \<open>X\<close>,
  \<open>delete\<close> answers 200 with a record of id \<open>X\<close> as it was stored, and persists the
  sequence without that one record, the others in their order, so one record shorter.
  When \<open>X\<close> was the id of exactly one record, \<open>getById\<close> on the persisted result
  fails with the 404 failure. For a product \<open>X\<close> is the number \<open>parseInt\<close> reads
  from the path.
\<close>

theorem delete_removes_one_record:
  "(contents fs ''users.json'' = Some users \<and> writable fs ''users.json''
      \<and> (\<exists>u\<in>set users. map_of u ''id'' = Some (JStr X))
    \<longrightarrow> (\<exists>i fs'. i < length users \<and> map_of (users ! i) ''id'' = Some (JStr X)
          \<and> fs' = fs\<lparr>contents := (contents fs)(''users.json'' \<mapsto> take i users @ drop (Suc i) users)\<rparr>
          \<and> deleteUser fs X = (Responded 200 (successOne ''user'' (users ! i)), fs')
          \<and> Suc (length (take i users @ drop (Suc i) users)) = length users
          \<and> (length (filter (\<lambda>u. map_of u ''id'' = Some (JStr X)) users) = 1
              \<longrightarrow> getUserById fs' X
                    = (Next \<lparr>message = ''User not found'', statusCode = Some 404\<rparr>, fs'))))
   \<and> (contents fs ''products.json'' = Some products \<and> writable fs ''products.json''
      \<and> parseInt s = Fin n
      \<and> (\<exists>p\<in>set products. map_of p ''id'' = Some (JNum n))
    \<longrightarrow> (\<exists>i fs'. i < length products \<and> map_of (products ! i) ''id'' = Some (JNum n)
          \<and> fs' = fs\<lparr>contents := (contents fs)(''products.json'' \<mapsto> take i products @ drop (Suc i) products)\<rparr>
          \<and> deleteProduct fs s = (Responded 200 (successOne ''product'' (products ! i)), fs')
          \<and> Suc (length (take i products @ drop (Suc i) products)) = length products
          \<and> (length (filter (\<lambda>p. map_of p ''id'' = Some (JNum n)) products) = 1
              \<longrightarrow> getProductById fs' s
                    = (Next \<lparr>message = ''Product not found'', statusCode = Some 404\<rparr>, fs'))))"
proof (intro conjI impI)
  assume h: "contents fs ''users.json'' = Some users \<and> writable fs ''users.json''
      \<and> (\<exists>u\<in>set users. map_of u ''id'' = Some (JStr X))"
  let ?P = "\<lambda>u. map_of u ''id'' = Some (JStr X)"
  from h have "\<exists>u\<in>set users. strictEqStr (map_of u ''id'') X"
    by (simp add: strictEqStr_def)
  from first_match [OF this] obtain i where
    i: "findIndex (\<lambda>u. strictEqStr (map_of u ''id'') X) users = Some i" "i < length users"
       "?P (users ! i)"
    by (auto simp: strictEqStr_def)
  let ?rest = "take i users @ drop (Suc i) users"
  let ?fs' = "fs\<lparr>contents := (contents fs)(''users.json'' \<mapsto> ?rest)\<rparr>"
  have del: "deleteUser fs X = (Responded 200 (successOne ''user'' (users ! i)), ?fs')"
    using h i(1) by (simp add: deleteUser_found)
  have len: "Suc (length ?rest) = length users"
    using i(2) by simp
  have again: "getUserById ?fs' X
      = (Next \<lparr>message = ''User not found'', statusCode = Some 404\<rparr>, ?fs')"
    if once: "length (filter ?P users) = 1"
  proof -
    have "\<forall>u\<in>set ?rest. map_of u ''id'' \<noteq> Some (JStr X)"
      using only_match_removed [of i users ?P, OF i(2) i(3) once] .
    moreover have "contents ?fs' ''users.json'' = Some ?rest" by simp
    ultimately show ?thesis
      using users_absent(1) [of ?fs' ?rest X] by (simp add: notFound_def)
  qed
  show "\<exists>i fs'. i < length users \<and> map_of (users ! i) ''id'' = Some (JStr X)
          \<and> fs' = fs\<lparr>contents := (contents fs)(''users.json'' \<mapsto> take i users @ drop (Suc i) users)\<rparr>
          \<and> deleteUser fs X = (Responded 200 (successOne ''user'' (users ! i)), fs')
          \<and> Suc (length (take i users @ drop (Suc i) users)) = length users
          \<and> (length (filter (\<lambda>u. map_of u ''id'' = Some (JStr X)) users) = 1
              \<longrightarrow> getUserById fs' X
                    = (Next \<lparr>message = ''User not found'', statusCode = Some 404\<rparr>, fs'))"
    using i(2,3) del len again by blast
next
  assume h: "contents fs ''products.json'' = Some products \<and> writable fs ''products.json''
      \<and> parseInt s = Fin n
      \<and> (\<exists>p\<in>set products. map_of p ''id'' = Some (JNum n))"
  let ?P = "\<lambda>p. map_of p ''id'' = Some (JNum n)"
  from h have "\<exists>p\<in>set products. strictEqNum (map_of p ''id'') (parseInt s)"
    by (simp add: strictEqNum_def)
  from first_match [OF this] obtain i where
    i: "findIndex (\<lambda>p. strictEqNum (map_of p ''id'') (parseInt s)) products = Some i"
       "i < length products" "strictEqNum (map_of (products ! i) ''id'') (parseInt s)"
    by auto
  from i(3) h have idn: "?P (products ! i)"
    by (simp add: strictEqNum_def)
  let ?rest = "take i products @ drop (Suc i) products"
  let ?fs' = "fs\<lparr>contents := (contents fs)(''products.json'' \<mapsto> ?rest)\<rparr>"
  have del: "deleteProduct fs s = (Responded 200 (successOne ''product'' (products ! i)), ?fs')"
    using h i(1) by (simp add: deleteProduct_found)
  have len: "Suc (length ?rest) = length products"
    using i(2) by simp
  have again: "getProductById ?fs' s
      = (Next \<lparr>message = ''Product not found'', statusCode = Some 404\<rparr>, ?fs')"
    if once: "length (filter ?P products) = 1"
  proof -
    have "\<forall>p\<in>set ?rest. map_of p ''id'' \<noteq> Some (JNum n)"
      using only_match_removed [of i products ?P, OF i(2) idn once] .
    then have "\<forall>p\<in>set ?rest. \<forall>m. parseInt s = Fin m \<longrightarrow> map_of p ''id'' \<noteq> Some (JNum m)"
      using h by simp
    moreover have "contents ?fs' ''products.json'' = Some ?rest" by simp
    ultimately show ?thesis
      using products_absent(1) [of ?fs' ?rest s] by (simp add: notFound_def)
  qed
  show "\<exists>i fs'. i < length products \<and> map_of (products ! i) ''id'' = Some (JNum n)
          \<and> fs' = fs\<lparr>contents := (contents fs)(''products.json'' \<mapsto> take i products @ drop (Suc i) products)\<rparr>
          \<and> deleteProduct fs s = (Responded 200 (successOne ''product'' (products ! i)), fs')
          \<and> Suc (length (take i products @ drop (Suc i) products)) = length products
          \<and> (length (filter (\<lambda>p. map_of p ''id'' = Some (JNum n)) products) = 1
              \<longrightarrow> getProductById fs' s
                    = (Next \<lparr>message = ''Product not found'', statusCode = Some 404\<rparr>, fs'))"
    using i(2) idn del len again by blast
qed

theorem delete_removes_one_record_witness:
  "contents mockStore ''users.json'' = Some mockUsers
   \<and> writable mockStore ''users.json''
   \<and> list_ex (\<lambda>u. map_of u ''id'' = Some (JStr ''1'')) mockUsers
   \<and> length (filter (\<lambda>u. map_of u ''id'' = Some (JStr ''1'')) mockUsers) = 1
   \<and> contents mockStore ''products.json'' = Some mockProducts
   \<and> writable mockStore ''products.json''
   \<and> parseInt ''1'' = Fin 1
   \<and> list_ex (\<lambda>p. map_of p ''id'' = Some (JNum 1)) mockProducts
   \<and> length (filter (\<lambda>p. map_of p ''id'' = Some (JNum 1)) mockProducts) = 1
   \<and> fst (deleteUser mockStore ''1'') = Responded 200 (successOne ''user'' (mockUsers ! 0))
   \<and> contents (snd (deleteUser mockStore ''1'')) ''users.json'' = Some [mockUsers ! 1]
   \<and> fst (getUserById (snd (deleteUser mockStore ''1'')) ''1'')
       = Next \<lparr>message = ''User not found'', statusCode = Some 404\<rparr>
   \<and> fst (deleteProduct mockStore ''1'') = Responded 200 (successOne ''product'' (mockProducts ! 0))
   \<and> contents (snd (deleteProduct mockStore ''1'')) ''products.json''
       = Some [mockProducts ! 1, mockProducts ! 2]
   \<and> fst (getProductById (snd (deleteProduct mockStore ''1'')) ''1'')
       = Next \<lparr>message = ''Product not found'', statusCode = Some 404\<rparr>"
proof -
  have h: "contents mockStore ''users.json'' = Some mockUsers"
     "writable mockStore ''users.json''"
     "contents mockStore ''products.json'' = Some mockProducts"
     "writable mockStore ''products.json''"
    by (simp_all add: mockStore_def)
  have u: "\<exists>u\<in>set mockUsers. map_of u ''id'' = Some (JStr ''1'')"
     "length (filter (\<lambda>u. map_of u ''id'' = Some (JStr ''1'')) mockUsers) = 1"
    by (simp_all add: mockUsers_def)
  have p: "\<exists>p\<in>set mockProducts. map_of p ''id'' = Some (JNum 1)"
     "length (filter (\<lambda>p. map_of p ''id'' = Some (JNum 1)) mockProducts) = 1"
    by (simp_all add: mockProducts_def)
  have du: "deleteUser mockStore ''1'' =
      (Responded 200 (successOne ''user'' (mockUsers ! 0)),
       mockStore\<lparr>contents := (contents mockStore)(''users.json'' \<mapsto> [mockUsers ! 1])\<rparr>)"
    by (simp add: deleteUser_def loadJsonData_def saveJsonData_def mockStore_def mockUsers_def
        strictEqStr_def splice1_def)
  have dp: "deleteProduct mockStore ''1'' =
      (Responded 200 (successOne ''product'' (mockProducts ! 0)),
       mockStore\<lparr>contents := (contents mockStore)(''products.json'' \<mapsto>
          [mockProducts ! 1, mockProducts ! 2])\<rparr>)"
    by (simp add: deleteProduct_def loadJsonData_def saveJsonData_def mockStore_def
        mockProducts_def strictEqNum_def splice1_def parseInt_1)
  from delete_removes_one_record [of mockStore mockUsers "''1''" mockProducts "''1''" 1]
       h u p parseInt_1
  obtain i j where
    "deleteUser mockStore ''1'' = (Responded 200 (successOne ''user'' (mockUsers ! i)),
       mockStore\<lparr>contents := (contents mockStore)(''users.json'' \<mapsto>
          take i mockUsers @ drop (Suc i) mockUsers)\<rparr>)"
    "getUserById (mockStore\<lparr>contents := (contents mockStore)(''users.json'' \<mapsto>
          take i mockUsers @ drop (Suc i) mockUsers)\<rparr>) ''1''
      = (Next \<lparr>message = ''User not found'', statusCode = Some 404\<rparr>,
         mockStore\<lparr>contents := (contents mockStore)(''users.json'' \<mapsto>
          take i mockUsers @ drop (Suc i) mockUsers)\<rparr>)"
    "deleteProduct mockStore ''1'' = (Responded 200 (successOne ''product'' (mockProducts ! j)),
       mockStore\<lparr>contents := (contents mockStore)(''products.json'' \<mapsto>
          take j mockProducts @ drop (Suc j) mockProducts)\<rparr>)"
    "getProductById (mockStore\<lparr>contents := (contents mockStore)(''products.json'' \<mapsto>
          take j mockProducts @ drop (Suc j) mockProducts)\<rparr>) ''1''
      = (Next \<lparr>message = ''Product not found'', statusCode = Some 404\<rparr>,
         mockStore\<lparr>contents := (contents mockStore)(''products.json'' \<mapsto>
          take j mockProducts @ drop (Suc j) mockProducts)\<rparr>)"
    by auto
  then have
    "fst (getUserById (snd (deleteUser mockStore ''1'')) ''1'')
       = Next \<lparr>message = ''User not found'', statusCode = Some 404\<rparr>"
    "fst (getProductById (snd (deleteProduct mockStore ''1'')) ''1'')
       = Next \<lparr>message = ''Product not found'', statusCode = Some 404\<rparr>"
    by simp_all
  then show ?thesis
    using h u p parseInt_1 du dp by (simp add: list_ex_iff)
qed

text \<open>
  C5 as the specification states it fails where two records share an id: a user is
  created with the id of an existing one, that id is deleted, and the id is still found.
\<close>

theorem delete_then_get_counterexample:
  "fst (getUserById
         (snd (deleteUser
                (snd (createUser (oneFile ''users.json'' mockUsers) ''0.a3f'' 255
                        [(''id'', JStr ''1''), (''name'', JStr ''Twin'')]))
                ''1''))
         ''1'')
   = Responded 200 (successOne ''user'' [(''id'', JStr ''1''), (''name'', JStr ''Twin'')])"
  by (simp add: getUserById_def deleteUser_def createUser_def loadJsonData_def saveJsonData_def
      oneFile_def mockUsers_def strictEqStr_def splice1_def newUser_def spread_def Let_def)

section \<open>Records that share an id\<close>

text \<open>
  C10. With the file readable and writable, when some record has id \<open>X\<close> there is a
  first index \<open>i\<close> with that id (no earlier record has it) such that \<open>update\<close>
  persists a sequence of the same length that differs from the old one at \<open>i\<close> only,
  and \<open>delete\<close> persists the old sequence without its element \<open>i\<close>: later
  records with the same id stay as they were, in their order.
\<close>

theorem only_first_match_is_touched:
  "(contents fs ''users.json'' = Some users \<and> writable fs ''users.json''
      \<and> (\<exists>u\<in>set users. map_of u ''id'' = Some (JStr X))
    \<longrightarrow> (\<exists>i us'. i < length users \<and> map_of (users ! i) ''id'' = Some (JStr X)
          \<and> (\<forall>j<i. map_of (users ! j) ''id'' \<noteq> Some (JStr X))
          \<and> contents (snd (updateUser fs X body)) ''users.json'' = Some us'
          \<and> length us' = length users
          \<and> (\<forall>j<length users. j \<noteq> i \<longrightarrow> us' ! j = users ! j)
          \<and> contents (snd (deleteUser fs X)) ''users.json''
              = Some (take i users @ drop (Suc i) users)))
   \<and> (contents fs ''products.json'' = Some products \<and> writable fs ''products.json''
      \<and> parseInt s = Fin n
      \<and> (\<exists>p\<in>set products. map_of p ''id'' = Some (JNum n))
    \<longrightarrow> (\<exists>i ps'. i < length products \<and> map_of (products ! i) ''id'' = Some (JNum n)
          \<and> (\<forall>j<i. map_of (products ! j) ''id'' \<noteq> Some (JNum n))
          \<and> contents (snd (updateProduct fs s body)) ''products.json'' = Some ps'
          \<and> length ps' = length products
          \<and> (\<forall>j<length products. j \<noteq> i \<longrightarrow> ps' ! j = products ! j)
          \<and> contents (snd (deleteProduct fs s)) ''products.json''
              = Some (take i products @ drop (Suc i) products)))"
proof (intro conjI impI)
  assume h: "contents fs ''users.json'' = Some users \<and> writable fs ''users.json''
      \<and> (\<exists>u\<in>set users. map_of u ''id'' = Some (JStr X))"
  then have "\<exists>u\<in>set users. strictEqStr (map_of u ''id'') X"
    by (simp add: strictEqStr_def)
  from first_match [OF this] obtain i where
    i: "findIndex (\<lambda>u. strictEqStr (map_of u ''id'') X) users = Some i" "i < length users"
       "map_of (users ! i) ''id'' = Some (JStr X)"
       "\<forall>j<i. map_of (users ! j) ''id'' \<noteq> Some (JStr X)"
    by (auto simp: strictEqStr_def)
  let ?us' = "users[i := mergeKeepId (users ! i) body]"
  have "contents (snd (updateUser fs X body)) ''users.json'' = Some ?us'"
    using h i(1) by (simp add: updateUser_found)
  moreover have "length ?us' = length users"
    and "\<forall>j<length users. j \<noteq> i \<longrightarrow> ?us' ! j = users ! j"
    by simp_all
  moreover have "contents (snd (deleteUser fs X)) ''users.json''
      = Some (take i users @ drop (Suc i) users)"
    using h i(1) by (simp add: deleteUser_found)
  ultimately show "\<exists>i us'. i < length users \<and> map_of (users ! i) ''id'' = Some (JStr X)
          \<and> (\<forall>j<i. map_of (users ! j) ''id'' \<noteq> Some (JStr X))
          \<and> contents (snd (updateUser fs X body)) ''users.json'' = Some us'
          \<and> length us' = length users
          \<and> (\<forall>j<length users. j \<noteq> i \<longrightarrow> us' ! j = users ! j)
          \<and> contents (snd (deleteUser fs X)) ''users.json''
              = Some (take i users @ drop (Suc i) users)"
    using i(2,3,4) by blast
next
  assume h: "contents fs ''products.json'' = Some products \<and> writable fs ''products.json''
      \<and> parseInt s = Fin n
      \<and> (\<exists>p\<in>set products. map_of p ''id'' = Some (JNum n))"
  then have "\<exists>p\<in>set products. strictEqNum (map_of p ''id'') (parseInt s)"
    by (simp add: strictEqNum_def)
  from first_match [OF this] h obtain i where
    i: "findIndex (\<lambda>p. strictEqNum (map_of p ''id'') (parseInt s)) products = Some i"
       "i < length products"
       "map_of (products ! i) ''id'' = Some (JNum n)"
       "\<forall>j<i. map_of (products ! j) ''id'' \<noteq> Some (JNum n)"
    by (auto simp: strictEqNum_def)
  let ?ps' = "products[i := mergeKeepId (products ! i) body]"
  have "contents (snd (updateProduct fs s body)) ''products.json'' = Some ?ps'"
    using h i(1) by (simp add: updateProduct_found)
  moreover have "length ?ps' = length products"
    and "\<forall>j<length products. j \<noteq> i \<longrightarrow> ?ps' ! j = products ! j"
    by simp_all
  moreover have "contents (snd (deleteProduct fs s)) ''products.json''
      = Some (take i products @ drop (Suc i) products)"
    using h i(1) by (simp add: deleteProduct_found)
  ultimately show "\<exists>i ps'. i < length products \<and> map_of (products ! i) ''id'' = Some (JNum n)
          \<and> (\<forall>j<i. map_of (products ! j) ''id'' \<noteq> Some (JNum n))
          \<and> contents (snd (updateProduct fs s body)) ''products.json'' = Some ps'
          \<and> length ps' = length products
          \<and> (\<forall>j<length products. j \<noteq> i \<longrightarrow> ps' ! j = products ! j)
          \<and> contents (snd (deleteProduct fs s)) ''products.json''
              = Some (take i products @ drop (Suc i) products)"
    using i(2,3,4) by blast
qed

theorem only_first_match_witness:
  "contents (oneFile ''users.json'' dupUsers) ''users.json'' = Some dupUsers
   \<and> writable (oneFile ''users.json'' dupUsers) ''users.json''
   \<and> list_ex (\<lambda>u. map_of u ''id'' = Some (JStr ''1'')) dupUsers
   \<and> contents (oneFile ''products.json'' dupProducts) ''products.json'' = Some dupProducts
   \<and> writable (oneFile ''products.json'' dupProducts) ''products.json''
   \<and> parseInt ''1'' = Fin 1
   \<and> list_ex (\<lambda>p. map_of p ''id'' = Some (JNum 1)) dupProducts
   \<and> contents (snd (updateUser (oneFile ''users.json'' dupUsers) ''1'' [(''name'', JStr ''New'')]))
        ''users.json''
       = Some [[(''id'', JStr ''1''), (''name'', JStr ''New'')], dupUsers ! 1, dupUsers ! 2]
   \<and> contents (snd (deleteUser (oneFile ''users.json'' dupUsers) ''1'')) ''users.json''
       = Some [dupUsers ! 1, dupUsers ! 2]
   \<and> contents (snd (updateProduct (oneFile ''products.json'' dupProducts) ''1''
                       [(''name'', JStr ''New'')])) ''products.json''
       = Some [[(''id'', JNum 1), (''name'', JStr ''New'')], dupProducts ! 1, dupProducts ! 2]
   \<and> contents (snd (deleteProduct (oneFile ''products.json'' dupProducts) ''1'')) ''products.json''
       = Some [dupProducts ! 1, dupProducts ! 2]"
proof -
  let ?fu = "oneFile ''users.json'' dupUsers" and ?fp = "oneFile ''products.json'' dupProducts"
  have h: "contents ?fu ''users.json'' = Some dupUsers" "writable ?fu ''users.json''"
     "contents ?fp ''products.json'' = Some dupProducts" "writable ?fp ''products.json''"
    by (simp_all add: oneFile_def)
  have u: "\<exists>u\<in>set dupUsers. map_of u ''id'' = Some (JStr ''1'')"
    by (simp add: dupUsers_def)
  have p: "\<exists>p\<in>set dupProducts. map_of p ''id'' = Some (JNum 1)"
    by (simp add: dupProducts_def)
  have fu: "findIndex (\<lambda>u. strictEqStr (map_of u ''id'') ''1'') dupUsers = Some 0"
    by (simp add: dupUsers_def strictEqStr_def)
  have fp: "findIndex (\<lambda>p. strictEqNum (map_of p ''id'') (parseInt ''1'')) dupProducts = Some 0"
    by (simp add: dupProducts_def strictEqNum_def parseInt_1)
  have m: "mergeKeepId (dupUsers ! 0) [(''name'', JStr ''New'')]
             = [(''id'', JStr ''1''), (''name'', JStr ''New'')]"
     "mergeKeepId (dupProducts ! 0) [(''name'', JStr ''New'')]
             = [(''id'', JNum 1), (''name'', JStr ''New'')]"
    by (simp_all add: mergeKeepId_def spread_def dupUsers_def dupProducts_def)
  have l: "dupUsers[0 := x] = [x, dupUsers ! 1, dupUsers ! 2]"
     "dupProducts[0 := y] = [y, dupProducts ! 1, dupProducts ! 2]"
     "drop (Suc 0) dupUsers = [dupUsers ! 1, dupUsers ! 2]"
     "drop (Suc 0) dupProducts = [dupProducts ! 1, dupProducts ! 2]" for x y
    by (simp_all add: dupUsers_def dupProducts_def)
  from only_first_match_is_touched
         [of ?fu dupUsers "''1''" "[(''name'', JStr ''New'')]" dupProducts "''1''" 1]
       only_first_match_is_touched
         [of ?fp dupUsers "''1''" "[(''name'', JStr ''New'')]" dupProducts "''1''" 1]
  show ?thesis
    using h u p parseInt_1
      updateUser_found [OF h(1,2) fu] deleteUser_found [OF h(1,2) fu]
      updateProduct_found [OF h(3,4) fp] deleteProduct_found [OF h(3,4) fp]
    by (simp add: list_ex_iff m l)
qed

section \<open>Creating a product\<close>








section \<open>Listing products\<close>





text \<open>
  C9. A \<open>category\<close>, \<open>minPrice\<close> or \<open>maxPrice\<close> parameter that is the empty string
  gives the same answer as the parameter left out.
\<close>

theorem empty_query_parameter_is_no_filter:
  "getAllProducts fs (q\<lparr>category := Some (QStr '''')\<rparr>) = getAllProducts fs (q\<lparr>category := None\<rparr>)
   \<and> getAllProducts fs (q\<lparr>minPrice := Some (QStr '''')\<rparr>) = getAllProducts fs (q\<lparr>minPrice := None\<rparr>)
   \<and> getAllProducts fs (q\<lparr>maxPrice := Some (QStr '''')\<rparr>) = getAllProducts fs (q\<lparr>maxPrice := None\<rparr>)"
  by (simp add: getAllProducts_def filterWhen_def Let_def split: sum.splits)

theorem empty_query_parameter_witness:
  "getAllProducts (oneFile ''products.json'' mockProducts)
       \<lparr>category = Some (QStr ''''), minPrice = Some (QStr ''150''), maxPrice = None\<rparr>
     = getAllProducts (oneFile ''products.json'' mockProducts)
       \<lparr>category = None, minPrice = Some (QStr ''150''), maxPrice = None\<rparr>
   \<and> fst (getAllProducts (oneFile ''products.json'' mockProducts)
       \<lparr>category = Some (QStr ''''), minPrice = Some (QStr ''''), maxPrice = Some (QStr '''')\<rparr>)
     = Responded 200 (successMany ''products'' mockProducts)"
proof -
  let ?f = "oneFile ''products.json'' mockProducts"
  have "fst (getAllProducts ?f \<lparr>category = None, minPrice = None, maxPrice = None\<rparr>)
          = Responded 200 (successMany ''products'' mockProducts)"
    by (simp add: getAllProducts_def filterWhen_def loadJsonData_def oneFile_def)
  with empty_query_parameter_is_no_filter
         [of ?f "\<lparr>category = None, minPrice = Some (QStr ''150''), maxPrice = None\<rparr>"]
       empty_query_parameter_is_no_filter
         [of ?f "\<lparr>category = None, minPrice = Some (QStr ''''), maxPrice = Some (QStr '''')\<rparr>"]
       empty_query_parameter_is_no_filter
         [of ?f "\<lparr>category = None, minPrice = None, maxPrice = Some (QStr '''')\<rparr>"]
       empty_query_parameter_is_no_filter
         [of ?f "\<lparr>category = None, minPrice = None, maxPrice = None\<rparr>"]
  show ?thesis by simp
qed

section \<open>The error envelope\<close>

text \<open>
  C7. For a failure whose status, when it has one, is a positive number, the handler
  answers with status \<open>N\<close>, the failure's status or 500 when it has none, and a body
  that is an object with \<open>status = error\<close>, \<open>statusCode = N\<close>, a \<open>message\<close>
  string and no other property but \<open>stack\<close>; \<open>stack\<close> is in the body only when
  \<open>NODE_ENV\<close> is \<open>development\<close>.
\<close>

theorem errorHandler_envelope:
  assumes "statusCode err \<noteq> Some 0"
  shows "\<exists>body m.
           errorHandler NODE_ENV stack err
             = (case statusCode err of None \<Rightarrow> 500 | Some n \<Rightarrow> n, JObj body)
         \<and> map_of body ''status'' = Some (JStr ''error'')
         \<and> map_of body ''statusCode''
             = Some (JNum (of_nat (case statusCode err of None \<Rightarrow> 500 | Some n \<Rightarrow> n)))
         \<and> map_of body ''message'' = Some (JStr m)
         \<and> (m = message err \<or> (message err = [] \<and> m = ''Internal server error''))
         \<and> set (map fst body) \<subseteq> {''status'', ''statusCode'', ''message'', ''stack''}
         \<and> (map_of body ''stack'' \<noteq> None \<longrightarrow> NODE_ENV = Some ''development'')"
proof -
  define N where "N = (case statusCode err of None \<Rightarrow> 500 | Some n \<Rightarrow> n)"
  define m where "m = (if message err \<noteq> [] then message err else ''Internal server error'')"
  define extra where "extra =
    (if NODE_ENV = Some ''development''
     then (case stack of None \<Rightarrow> [] | Some s \<Rightarrow> [(''stack'', JStr s)]) else [])"
  define body where "body =
    [(''status'', JStr ''error''), (''statusCode'', JNum (of_nat N)), (''message'', JStr m)] @ extra"
  have code: "(case statusCode err of None \<Rightarrow> 500 | Some n \<Rightarrow> (if n \<noteq> 0 then n else 500)) = N"
    using assms by (simp add: N_def split: option.splits)
  have run: "errorHandler NODE_ENV stack err = (N, JObj body)"
    by (simp add: errorHandler_def code body_def m_def extra_def)
  have shape: "extra = [] \<or> (\<exists>s. extra = [(''stack'', JStr s)])"
    by (simp add: extra_def split: option.splits)
  have st: "map_of body ''status'' = Some (JStr ''error'')"
    and sc: "map_of body ''statusCode'' = Some (JNum (of_nat N))"
    and ms: "map_of body ''message'' = Some (JStr m)"
    by (simp_all add: body_def)
  have mm: "m = message err \<or> (message err = [] \<and> m = ''Internal server error'')"
    by (simp add: m_def)
  have ks: "set (map fst body) \<subseteq> {''status'', ''statusCode'', ''message'', ''stack''}"
    using shape by (auto simp: body_def)
  have "NODE_ENV \<noteq> Some ''development'' \<longrightarrow> extra = []"
    by (simp add: extra_def)
  then have dev: "map_of body ''stack'' \<noteq> None \<longrightarrow> NODE_ENV = Some ''development''"
    by (auto simp: body_def)
  from run st sc ms mm ks dev show ?thesis
    unfolding N_def by blast
qed

theorem errorHandler_envelope_witness:
  "statusCode (notFound ''User not found'') \<noteq> Some 0
   \<and> statusCode \<lparr>message = ''Could not load data from users.json'', statusCode = None\<rparr> \<noteq> Some 0
   \<and> errorHandler (Some ''production'') (Some ''Error: User not found at ...'')
        (notFound ''User not found'')
       = (404, JObj [(''status'', JStr ''error''), (''statusCode'', JNum 404),
                     (''message'', JStr ''User not found'')])
   \<and> errorHandler None (Some ''Error: ...'')
        \<lparr>message = ''Could not load data from users.json'', statusCode = None\<rparr>
       = (500, JObj [(''status'', JStr ''error''), (''statusCode'', JNum 500),
                     (''message'', JStr ''Could not load data from users.json'')])
   \<and> errorHandler (Some ''development'') (Some ''Stack trace info'')
        \<lparr>message = ''Development error'', statusCode = None\<rparr>
       = (500, JObj [(''status'', JStr ''error''), (''statusCode'', JNum 500),
                     (''message'', JStr ''Development error''),
                     (''stack'', JStr ''Stack trace info'')])"
proof -
  have h: "statusCode (notFound ''User not found'') \<noteq> Some 0"
     "statusCode \<lparr>message = ''Could not load data from users.json'', statusCode = None\<rparr> \<noteq> Some 0"
    by (simp_all add: notFound_def)
  from errorHandler_envelope [OF h(1), of "Some ''production''" "Some ''Error: User not found at ...''"]
       errorHandler_envelope [OF h(2), of None "Some ''Error: ...''"]
  show ?thesis
    using h by (simp add: errorHandler_def notFound_def)
qed

section \<open>The path identifier of a product\<close>









end
